theory Spec2Isabelle
  imports Complex_Main "HOL-Library.Word"
begin

section \<open>The OpenNI fast-mesh viewer (apps/src/openni\_fast\_mesh.cpp)\<close>

text \<open>
  The program hands point clouds from a capture callback (\<open>cloud_cb\<close>) to a render
  callback (\<open>viz_cb\<close>) through the members \<open>cloud_\<close>, \<open>mesh_\<close>, \<open>new_cloud_\<close>
  of one \<open>OpenNIFastMesh\<close> object, guarded by the member \<open>mtx_\<close>. Identifiers of
  the source that end in an underscore lose it here (\<open>cloud_\<close> is \<open>cloud\<close>).

  The embedding has two levels. At the level of events each callback is one function from
  state to state, the source's statements in their order. At the level of statements each
  callback is a program counter over its statements and the two threads interleave freely,
  under sequential consistency; the mutex is explicit there.
\<close>

subsection \<open>Console output and other effects on the outside\<close>

text \<open>One operand of a \<open><<\<close> chain on \<open>std::cout\<close>.\<close>

datatype item =
    Str string
  | Dbl real
  | Uns "32 word"
  | Sgn int
  | Endl

datatype effect =
    Cout "item list"
  | Sleep_ms nat
  | PCL_INFO string
  | Grabber_new string
  | Grabber_providesCallback_rgb
  | Grabber_registerCallback
  | Viewer_runOnVisualizationThread string
  | Grabber_start
  | Grabber_stop

subsection \<open>The frame-rate counter \<open>FPS_CALC\<close>\<close>

text \<open>
  The macro's two function-local statics, one pair per place where the macro is expanded.
  \<open>last_t\<close> is the static \<open>last\<close>; it is \<open>None\<close> until control first passes its
  initialiser \<open>pcl::getTime ()\<close>. Doubles are idealised as reals; division by a zero
  elapsed time, infinite for a double, is outside what the theorems below state.
\<close>

record fps_static =
  count :: "32 word"
  last_t :: "real option"

definition fps_static_init :: fps_static where
  "fps_static_init = \<lparr>count = 0, last_t = None\<rparr>"

text \<open>
  One pass through the expanded macro. \<open>t\<close> is what \<open>pcl::getTime ()\<close> returns during this
  pass: the clock is read by the initialiser of \<open>last\<close> on the first pass and by
  \<open>now\<close> on a pass where the count reaches 100.
\<close>

definition FPS_CALC :: "string \<Rightarrow> real \<Rightarrow> fps_static \<Rightarrow> effect list \<times> fps_static" where
  "FPS_CALC what t st =
     (let last0 = (case last_t st of None \<Rightarrow> t | Some l \<Rightarrow> l);
          c = count st + 1
      in if c = 100
         then (let now = t
               in ([Cout [Str ''Average framerate('', Str what, Str ''): '',
                          Dbl (real (unat c) / (now - last0)), Str '' Hz'', Endl]],
                   \<lparr>count = 0, last_t = Some now\<rparr>))
         else ([], \<lparr>count = c, last_t = Some last0\<rparr>))"

text \<open>Consecutive passes through one expansion, with the clock reading of each pass.\<close>

fun FPS_CALC_run :: "string \<Rightarrow> real list \<Rightarrow> fps_static \<Rightarrow> effect list \<times> fps_static" where
  "FPS_CALC_run what [] st = ([], st)"
| "FPS_CALC_run what (t # ts) st =
     (case FPS_CALC what t st of (out, st') \<Rightarrow>
        (case FPS_CALC_run what ts st' of (outs, st'') \<Rightarrow> (out @ outs, st'')))"

subsection \<open>The library objects the callbacks use\<close>

text \<open>
  The enumeration of \<open>pcl/surface/organized_fast_mesh.h\<close>, a header that is not among the
  sources; the program names \<open>TRIANGLE_ADAPTIVE_CUT\<close> only.
\<close>

datatype TriangulationType =
    TRIANGLE_RIGHT_CUT
  | TRIANGLE_LEFT_CUT
  | TRIANGLE_ADAPTIVE_CUT
  | QUAD_MESH

text \<open>
  The settings of a \<open>pcl::OrganizedFastMesh\<close> that the program writes. \<open>'f\<close> is the type
  of point clouds (frames); a \<open>CloudConstPtr\<close> is an \<open>'f option\<close>, \<open>None\<close> the null
  pointer.
\<close>

record 'f OrganizedFastMesh =
  max_edge_length :: real
  triangle_pixel_size :: int
  triangulation_type :: TriangulationType
  input :: "'f option"

text \<open>The object \<open>ofm\<close> of \<open>cloud_cb\<close> after its four setters (lines 90 to 94).\<close>

definition ofm :: "'f option \<Rightarrow> 'f OrganizedFastMesh" where
  "ofm cloud_in =
     \<lparr>max_edge_length = 3 / 2,
      triangle_pixel_size = 1,
      triangulation_type = TRIANGLE_ADAPTIVE_CUT,
      input = cloud_in\<rparr>"

text \<open>
  The two operations on \<open>pcl::PolygonMesh\<close> (type \<open>'m\<close>) that the program calls and whose
  code is in the library: the default constructor and \<open>OrganizedFastMesh::reconstruct\<close>,
  which fills the mesh it is handed. They are parameters of everything below.
\<close>

record ('f, 'm) pcl =
  PolygonMesh :: 'm
  reconstruct :: "'f OrganizedFastMesh \<Rightarrow> 'm \<Rightarrow> 'm"

text \<open>The mesh that lines 87 to 95 compute from a frame.\<close>

definition mesh_of :: "('f, 'm) pcl \<Rightarrow> 'f \<Rightarrow> 'm" where
  "mesh_of lib f = reconstruct lib (ofm (Some f)) (PolygonMesh lib)"

type_synonym Vertices = "32 word list"

datatype representation =
    REPRESENTATION_POINTS
  | REPRESENTATION_WIREFRAME
  | REPRESENTATION_SURFACE

record 'm shape =
  polygon_mesh :: 'm
  rendering :: representation

text \<open>
  Modelled from the spec: the viewer collaborator (\<open>pcl/visualization\<close>, not among the
  sources), of which the spec says that it has methods to add and remove a named renderable
  surface and a rendering-property setter. The visualizer is the map from names to the
  shapes it shows; a shape is added in the surface representation.
\<close>

type_synonym 'm PCLVisualizer = "string \<rightharpoonup> 'm shape"

definition removeShape :: "string \<Rightarrow> 'm PCLVisualizer \<Rightarrow> 'm PCLVisualizer" where
  "removeShape name viz = viz(name := None)"

definition addPolygonMesh :: "'m \<Rightarrow> string \<Rightarrow> 'm PCLVisualizer \<Rightarrow> 'm PCLVisualizer" where
  "addPolygonMesh m name viz =
     viz(name \<mapsto> \<lparr>polygon_mesh = m, rendering = REPRESENTATION_SURFACE\<rparr>)"

definition setShapeRenderingProperties ::
    "representation \<Rightarrow> string \<Rightarrow> 'm PCLVisualizer \<Rightarrow> 'm PCLVisualizer" where
  "setShapeRenderingProperties r name viz =
     (case viz name of
        None \<Rightarrow> viz
      | Some sh \<Rightarrow> viz(name \<mapsto> sh\<lparr>rendering := r\<rparr>))"

subsection \<open>The class \<open>OpenNIFastMesh\<close>\<close>

text \<open>
  The data members, the shapes of the member \<open>viewer\<close> (the visualizer that the viewer
  passes to \<open>viz_cb\<close>), and the statics of the two expansions of \<open>FPS_CALC\<close>. The mutex
  is added at the level of statements.
\<close>

record ('f, 'm) OpenNIFastMesh =
  viewer :: "'m PCLVisualizer"
  device_id :: string
  cloud :: "'f option"
  vertices :: "Vertices list option"
  mesh :: "'m option"
  new_cloud :: bool
  fps_computation :: fps_static
  fps_visualization :: fps_static

text \<open>The constructor (lines 74 to 77); a new viewer shows nothing.\<close>

definition OpenNIFastMesh_new :: "string \<Rightarrow> ('f, 'm) OpenNIFastMesh" where
  "OpenNIFastMesh_new dev =
     \<lparr>viewer = Map.empty,
      device_id = dev,
      cloud = None,
      vertices = None,
      mesh = None,
      new_cloud = False,
      fps_computation = fps_static_init,
      fps_visualization = fps_static_init\<rparr>"

datatype error = NullPointer

subsection \<open>The callbacks, one event each\<close>

text \<open>
  \<open>cloud_cb\<close> (lines 79 to 100). The frame source delivers a frame \<open>cloud_in\<close>; \<open>t\<close> is the
  clock reading of this call. The result is the console output and the new state.
\<close>

definition cloud_cb ::
    "('f, 'm) pcl \<Rightarrow> 'f \<Rightarrow> real \<Rightarrow> ('f, 'm, 'z) OpenNIFastMesh_scheme
      \<Rightarrow> effect list \<times> ('f, 'm, 'z) OpenNIFastMesh_scheme" where
  "cloud_cb lib cloud_in t s =
     (case FPS_CALC ''computation'' t (fps_computation s) of (out, fps) \<Rightarrow>
        (let s1 = s\<lparr>fps_computation := fps\<rparr>;
             s2 = (if \<not> new_cloud s1
                   then (let s3 = s1\<lparr>mesh := Some (PolygonMesh lib)\<rparr>;
                             s4 = s3\<lparr>vertices := Some []\<rparr>
                         in s4\<lparr>mesh := map_option (reconstruct lib (ofm (Some cloud_in))) (mesh s4)\<rparr>)
                   else s1);
             s5 = s2\<lparr>cloud := Some cloud_in\<rparr>
         in (out, s5\<lparr>new_cloud := True\<rparr>)))"

text \<open>
  \<open>viz_cb\<close> (lines 102 to 127). The result is the console output and sleeps, the value of
  the local \<open>temp_cloud\<close> when the call returns (the frame this call took and releases),
  and the new state; dereferencing an empty \<open>mesh_\<close> at line 121 is the error.
\<close>

definition viz_cb ::
    "real \<Rightarrow> ('f, 'm, 'z) OpenNIFastMesh_scheme
      \<Rightarrow> error + (effect list \<times> 'f option \<times> ('f, 'm, 'z) OpenNIFastMesh_scheme)" where
  "viz_cb t s =
     (if \<not> new_cloud s then Inr ([Sleep_ms 1], None, s)
      else
        (let temp_cloud = cloud s;
             s1 = s\<lparr>cloud := None\<rparr>
         in case FPS_CALC ''visualization'' t (fps_visualization s1) of (out, fps) \<Rightarrow>
              (let s2 = s1\<lparr>fps_visualization := fps\<rparr>;
                   s3 = s2\<lparr>viewer := removeShape ''surface'' (viewer s2)\<rparr>
               in case mesh s3 of
                    None \<Rightarrow> Inl NullPointer
                  | Some m \<Rightarrow>
                      (let s4 = s3\<lparr>viewer := addPolygonMesh m ''surface'' (viewer s3)\<rparr>;
                           s5 = s4\<lparr>viewer := setShapeRenderingProperties
                                   REPRESENTATION_WIREFRAME ''surface'' (viewer s4)\<rparr>
                       in Inr (out, temp_cloud, s5\<lparr>new_cloud := False\<rparr>)))))"

text \<open>Sequences of events: captures with their frames, renders, each with its clock reading.\<close>

datatype 'f event = Capture 'f real | Render real

fun handle ::
    "('f, 'm) pcl \<Rightarrow> 'f event \<Rightarrow> ('f, 'm, 'z) OpenNIFastMesh_scheme
      \<Rightarrow> error + ('f, 'm, 'z) OpenNIFastMesh_scheme" where
  "handle lib (Capture f t) s = Inr (snd (cloud_cb lib f t s))"
| "handle lib (Render t) s = map_sum id (\<lambda>r. snd (snd r)) (viz_cb t s)"

fun handle_all ::
    "('f, 'm) pcl \<Rightarrow> 'f event list \<Rightarrow> ('f, 'm, 'z) OpenNIFastMesh_scheme
      \<Rightarrow> error + ('f, 'm, 'z) OpenNIFastMesh_scheme" where
  "handle_all lib [] s = Inr s"
| "handle_all lib (e # es) s =
     (case handle lib e s of Inl err \<Rightarrow> Inl err | Inr s' \<Rightarrow> handle_all lib es s')"

text \<open>The mesh on the screen: the shape named \<open>surface\<close>.\<close>

definition displayed :: "('f, 'm, 'z) OpenNIFastMesh_scheme \<Rightarrow> 'm shape option" where
  "displayed s = viewer s ''surface''"

subsection \<open>The callbacks, statement by statement\<close>

text \<open>
  The capture thread runs \<open>cloud_cb\<close> over and over, the render thread \<open>viz_cb\<close>.
  A location names the statement a thread executes next; the first location of each
  datatype is where the thread is between two calls.
\<close>

datatype thread = Capture_thread | Render_thread

datatype cloud_cb_pc =
    C_lock              \<comment> \<open>line 82, \<open>scoped_lock lock (mtx_)\<close>\<close>
  | C_fps               \<comment> \<open>line 83\<close>
  | C_test              \<comment> \<open>line 85, \<open>if (!new_cloud_)\<close>\<close>
  | C_reset_mesh        \<comment> \<open>line 87\<close>
  | C_reset_vertices    \<comment> \<open>line 88\<close>
  | C_reconstruct       \<comment> \<open>lines 90 to 95\<close>
  | C_store             \<comment> \<open>line 98, \<open>cloud_ = cloud\<close>\<close>
  | C_flag              \<comment> \<open>line 99, \<open>new_cloud_ = true\<close>\<close>
  | C_unlock            \<comment> \<open>line 100, the end of the lock's scope\<close>

datatype viz_cb_pc =
    R_test              \<comment> \<open>line 105, \<open>if (!new_cloud_)\<close>\<close>
  | R_sleep             \<comment> \<open>lines 107 and 108\<close>
  | R_swap              \<comment> \<open>lines 110 and 111\<close>
  | R_lock              \<comment> \<open>line 114\<close>
  | R_fps               \<comment> \<open>line 115\<close>
  | R_remove            \<comment> \<open>line 119\<close>
  | R_add               \<comment> \<open>line 121\<close>
  | R_props             \<comment> \<open>line 124\<close>
  | R_clear             \<comment> \<open>line 125, \<open>new_cloud_ = false\<close>\<close>
  | R_unlock            \<comment> \<open>lines 126 and 127, the end of the lock's scope and of the call\<close>

text \<open>
  The object together with its mutex (\<open>None\<close>: free), the console, and for each thread its
  location and its local: the parameter \<open>cloud\<close> of the running \<open>cloud_cb\<close> and the
  \<open>temp_cloud\<close> of the running \<open>viz_cb\<close>.
\<close>

record ('f, 'm) threads = "('f, 'm) OpenNIFastMesh" +
  mtx :: "thread option"
  console :: "effect list"
  cloud_cb_at :: cloud_cb_pc
  cloud_arg :: "'f option"
  viz_cb_at :: viz_cb_pc
  temp_cloud :: "'f option"

definition threads_new :: "string \<Rightarrow> ('f, 'm) threads" where
  "threads_new dev =
     OpenNIFastMesh.extend (OpenNIFastMesh_new dev)
       (threads.fields None [] C_lock None R_test None)"

datatype 'a outcome = Next 'a | Blocked | Crashed error

text \<open>
  One statement of \<open>cloud_cb\<close>. At \<open>C_lock\<close> the frame source calls with the frame \<open>f\<close>
  and the thread waits while the mutex is taken; \<open>t\<close> is the clock reading, read at
  \<open>C_fps\<close> only.
\<close>

definition cloud_cb_step ::
    "('f, 'm) pcl \<Rightarrow> 'f \<Rightarrow> real \<Rightarrow> ('f, 'm) threads \<Rightarrow> ('f, 'm) threads outcome" where
  "cloud_cb_step lib f t c =
     (case cloud_cb_at c of
        C_lock \<Rightarrow>
          (case mtx c of
             Some _ \<Rightarrow> Blocked
           | None \<Rightarrow> Next (c\<lparr>mtx := Some Capture_thread, cloud_arg := Some f, cloud_cb_at := C_fps\<rparr>))
      | C_fps \<Rightarrow>
          (case FPS_CALC ''computation'' t (fps_computation c) of (out, fps) \<Rightarrow>
             Next (c\<lparr>fps_computation := fps, console := console c @ out, cloud_cb_at := C_test\<rparr>))
      | C_test \<Rightarrow>
          Next (c\<lparr>cloud_cb_at := (if \<not> new_cloud c then C_reset_mesh else C_store)\<rparr>)
      | C_reset_mesh \<Rightarrow>
          Next (c\<lparr>mesh := Some (PolygonMesh lib), cloud_cb_at := C_reset_vertices\<rparr>)
      | C_reset_vertices \<Rightarrow>
          Next (c\<lparr>vertices := Some [], cloud_cb_at := C_reconstruct\<rparr>)
      | C_reconstruct \<Rightarrow>
          (case mesh c of
             None \<Rightarrow> Crashed NullPointer
           | Some m \<Rightarrow>
               Next (c\<lparr>mesh := Some (reconstruct lib (ofm (cloud_arg c)) m), cloud_cb_at := C_store\<rparr>))
      | C_store \<Rightarrow>
          Next (c\<lparr>cloud := cloud_arg c, cloud_cb_at := C_flag\<rparr>)
      | C_flag \<Rightarrow>
          Next (c\<lparr>new_cloud := True, cloud_cb_at := C_unlock\<rparr>)
      | C_unlock \<Rightarrow>
          Next (c\<lparr>mtx := None, cloud_arg := None, cloud_cb_at := C_lock\<rparr>))"

text \<open>One statement of \<open>viz_cb\<close>; \<open>t\<close> is the clock reading, read at \<open>R_fps\<close> only.\<close>

definition viz_cb_step :: "real \<Rightarrow> ('f, 'm) threads \<Rightarrow> ('f, 'm) threads outcome" where
  "viz_cb_step t c =
     (case viz_cb_at c of
        R_test \<Rightarrow>
          Next (c\<lparr>viz_cb_at := (if \<not> new_cloud c then R_sleep else R_swap)\<rparr>)
      | R_sleep \<Rightarrow>
          Next (c\<lparr>console := console c @ [Sleep_ms 1], viz_cb_at := R_test\<rparr>)
      | R_swap \<Rightarrow>
          Next (c\<lparr>temp_cloud := cloud c, cloud := None, viz_cb_at := R_lock\<rparr>)
      | R_lock \<Rightarrow>
          (case mtx c of
             Some _ \<Rightarrow> Blocked
           | None \<Rightarrow> Next (c\<lparr>mtx := Some Render_thread, viz_cb_at := R_fps\<rparr>))
      | R_fps \<Rightarrow>
          (case FPS_CALC ''visualization'' t (fps_visualization c) of (out, fps) \<Rightarrow>
             Next (c\<lparr>fps_visualization := fps, console := console c @ out, viz_cb_at := R_remove\<rparr>))
      | R_remove \<Rightarrow>
          Next (c\<lparr>viewer := removeShape ''surface'' (viewer c), viz_cb_at := R_add\<rparr>)
      | R_add \<Rightarrow>
          (case mesh c of
             None \<Rightarrow> Crashed NullPointer
           | Some m \<Rightarrow>
               Next (c\<lparr>viewer := addPolygonMesh m ''surface'' (viewer c), viz_cb_at := R_props\<rparr>))
      | R_props \<Rightarrow>
          Next (c\<lparr>viewer := setShapeRenderingProperties
                    REPRESENTATION_WIREFRAME ''surface'' (viewer c),
                 viz_cb_at := R_clear\<rparr>)
      | R_clear \<Rightarrow>
          Next (c\<lparr>new_cloud := False, viz_cb_at := R_unlock\<rparr>)
      | R_unlock \<Rightarrow>
          Next (c\<lparr>mtx := None, temp_cloud := None, viz_cb_at := R_test\<rparr>))"

text \<open>
  A schedule lets one thread execute one statement at a time, in any order. A thread that
  waits for the mutex stays where it is; a crash ends the run.
\<close>

datatype 'f tick = Capture_tick 'f real | Render_tick real

fun step :: "('f, 'm) pcl \<Rightarrow> 'f tick \<Rightarrow> ('f, 'm) threads \<Rightarrow> ('f, 'm) threads outcome" where
  "step lib (Capture_tick f t) c = cloud_cb_step lib f t c"
| "step lib (Render_tick t) c = viz_cb_step t c"

fun steps ::
    "('f, 'm) pcl \<Rightarrow> 'f tick list \<Rightarrow> ('f, 'm) threads \<Rightarrow> error + ('f, 'm) threads" where
  "steps lib [] c = Inr c"
| "steps lib (k # ks) c =
     (case step lib k c of
        Next c' \<Rightarrow> steps lib ks c'
      | Blocked \<Rightarrow> steps lib ks c
      | Crashed err \<Rightarrow> Inl err)"

subsection \<open>\<open>usage\<close> and \<open>main\<close>\<close>




text \<open>
  The loop of \<open>run\<close> (lines 141 to 144). \<open>wasStopped i\<close> is the viewer's answer to poll
  number \<open>i\<close>. The loop ends only when the viewer answers yes, so it runs on fuel: \<open>None\<close>
  is a loop that is still running when the fuel is spent.
\<close>

fun run_loop :: "nat \<Rightarrow> (nat \<Rightarrow> bool) \<Rightarrow> nat \<Rightarrow> effect list option" where
  "run_loop 0 wasStopped i = None"
| "run_loop (Suc fuel) wasStopped i =
     (if \<not> wasStopped i
      then map_option ((#) (Sleep_ms 1)) (run_loop fuel wasStopped (Suc i))
      else Some [])"

text \<open>
  \<open>run\<close> (lines 129 to 147) as \<open>main\<close> sees it: the calls to the grabber and the viewer.
  What the two callbacks do while the loop polls is the subject of the sections above.
\<close>

definition run :: "nat \<Rightarrow> string \<Rightarrow> (nat \<Rightarrow> bool) \<Rightarrow> effect list option" where
  "run fuel dev wasStopped =
     map_option
       (\<lambda>sleeps. [Grabber_new dev, Grabber_registerCallback,
                   Viewer_runOnVisualizationThread ''viz_cb'', Grabber_start]
                  @ sleeps @ [Grabber_stop])
       (run_loop fuel wasStopped 0)"


subsection \<open>Invariants and an instance for concrete runs\<close>

text \<open>
  Between two events: a raised flag comes with a frame and a mesh.
\<close>

definition pair_inv :: "('f, 'm, 'z) OpenNIFastMesh_scheme \<Rightarrow> bool" where
  "pair_inv s \<longleftrightarrow> (new_cloud s \<longrightarrow> cloud s \<noteq> None \<and> mesh s \<noteq> None)"

text \<open>The locations of \<open>viz_cb\<close> inside the scope of its lock (lines 114 to 126).\<close>

definition viz_cb_locked :: "viz_cb_pc \<Rightarrow> bool" where
  "viz_cb_locked pc \<longleftrightarrow> pc \<in> {R_fps, R_remove, R_add, R_props, R_clear, R_unlock}"

text \<open>
  Between two statements: who owns the mutex follows from the two locations, the two
  threads are never both inside their locked scopes, and the members are populated where
  the statements to come need them.
\<close>

definition handoff_inv :: "('f, 'm) threads \<Rightarrow> bool" where
  "handoff_inv c \<longleftrightarrow>
     mtx c = (if cloud_cb_at c \<noteq> C_lock then Some Capture_thread
              else if viz_cb_locked (viz_cb_at c) then Some Render_thread
              else None) \<and>
     \<not> (cloud_cb_at c \<noteq> C_lock \<and> viz_cb_locked (viz_cb_at c)) \<and>
     (cloud_cb_at c \<noteq> C_lock \<longrightarrow> cloud_arg c \<noteq> None) \<and>
     (new_cloud c \<longrightarrow> mesh c \<noteq> None) \<and>
     (cloud_cb_at c \<in> {C_reset_vertices, C_reconstruct, C_store, C_flag, C_unlock}
        \<longrightarrow> mesh c \<noteq> None) \<and>
     (viz_cb_at c \<notin> {R_test, R_sleep} \<longrightarrow> mesh c \<noteq> None) \<and>
     (viz_cb_at c = R_unlock \<longrightarrow> \<not> new_cloud c) \<and>
     (viz_cb_at c \<in> {R_test, R_sleep} \<and> (new_cloud c \<or> cloud_cb_at c \<in> {C_flag, C_unlock})
        \<longrightarrow> cloud c \<noteq> None)"

text \<open>
  An instance of the library for the concrete runs below: frames are numbers, a mesh is
  the list of the frames it was reconstructed from.
\<close>

definition example_pcl :: "(nat, nat list) pcl" where
  "example_pcl =
     \<lparr>PolygonMesh = [],
      reconstruct = (\<lambda>ofm m. case input ofm of None \<Rightarrow> m | Some f \<Rightarrow> m @ [f])\<rparr>"


section \<open>Properties\<close>

subsection \<open>The frame-rate counter\<close>

lemma unat_succ:
  fixes c :: "32 word"
  assumes "unat c < 100"
  shows "unat (c + 1) = unat c + 1"
proof -
  have "unat (c + 1) = (unat c + 1) mod 2 ^ 32"
    by (simp add: unat_word_ariths)
  also have "\<dots> = unat c + 1"
    using assms by simp
  finally show ?thesis .
qed

lemma succ_ne_100:
  fixes c :: "32 word"
  assumes "unat c < 99"
  shows "c + 1 \<noteq> 100"
proof
  assume "c + 1 = 100"
  then have "unat (c + 1) = 100" by simp
  with assms unat_succ [of c] show False by simp
qed

lemma succ_eq_100:
  fixes c :: "32 word"
  assumes "unat c = 99"
  shows "c + 1 = 100"
proof -
  have "unat (c + 1) = unat (100 :: 32 word)"
    using assms unat_succ [of c] by simp
  then show ?thesis by (simp only: word_unat_eq_iff)
qed

lemma FPS_CALC_quiet:
  assumes "unat (count st) < 99"
  shows "FPS_CALC what t st =
    ([], \<lparr>count = count st + 1, last_t = Some (case last_t st of None \<Rightarrow> t | Some l \<Rightarrow> l)\<rparr>)"
  using succ_ne_100 [OF assms] by (simp add: FPS_CALC_def Let_def)

lemma FPS_CALC_report:
  assumes "unat (count st) = 99"
  shows "FPS_CALC what t st =
    ([Cout [Str ''Average framerate('', Str what, Str ''): '',
            Dbl (100 / (t - (case last_t st of None \<Rightarrow> t | Some l \<Rightarrow> l))), Str '' Hz'', Endl]],
     \<lparr>count = 0, last_t = Some t\<rparr>)"
  using succ_eq_100 [OF assms] by (simp add: FPS_CALC_def Let_def)

lemma FPS_CALC_run_quiet:
  "unat (count st) + length ts < 100 \<Longrightarrow> ts \<noteq> [] \<Longrightarrow>
   FPS_CALC_run what ts st =
     ([], \<lparr>count = count st + of_nat (length ts),
           last_t = Some (case last_t st of None \<Rightarrow> hd ts | Some l \<Rightarrow> l)\<rparr>)"
proof (induction ts arbitrary: st)
  case Nil
  then show ?case by simp
next
  case (Cons t ts)
  have small: "unat (count st) < 99" using Cons.prems by simp
  note first = FPS_CALC_quiet [OF small, of what t]
  show ?case
  proof (cases "ts = []")
    case True
    then show ?thesis using first by (simp split: option.split)
  next
    case False
    let ?st = "\<lparr>count = count st + 1, last_t = Some (case last_t st of None \<Rightarrow> t | Some l \<Rightarrow> l)\<rparr>"
    have "unat (count ?st) + length ts < 100"
      using Cons.prems unat_succ [of "count st"] by simp
    from Cons.IH [OF this False] show ?thesis
      using first by (simp add: add.assoc split: option.split)
  qed
qed

lemma FPS_CALC_run_append:
  "FPS_CALC_run what (ts @ us) st =
     (fst (FPS_CALC_run what ts st) @ fst (FPS_CALC_run what us (snd (FPS_CALC_run what ts st))),
      snd (FPS_CALC_run what us (snd (FPS_CALC_run what ts st))))"
  by (induction ts arbitrary: st) (simp_all split: prod.split)

lemma FPS_CALC_run_100:
  assumes "count st = 0" and "length ts = 100"
  shows "FPS_CALC_run what ts st =
           ([Cout [Str ''Average framerate('', Str what, Str ''): '',
                   Dbl (100 / (last ts - (case last_t st of None \<Rightarrow> hd ts | Some l \<Rightarrow> l))),
                   Str '' Hz'', Endl]],
            \<lparr>count = 0, last_t = Some (last ts)\<rparr>)"
proof -
  let ?l0 = "case last_t st of None \<Rightarrow> hd ts | Some l \<Rightarrow> l"
  have ne: "ts \<noteq> []" using assms(2) by auto
  then have split: "ts = butlast ts @ [last ts]" by simp
  have len: "length (butlast ts) = 99" using assms(2) by simp
  have bne: "butlast ts \<noteq> []" using len by (metis length_0_conv zero_neq_numeral)
  have hd_eq: "hd (butlast ts) = hd ts" using bne by (metis hd_append2 split)
  have q: "FPS_CALC_run what (butlast ts) st = ([], \<lparr>count = 99, last_t = Some ?l0\<rparr>)"
    using FPS_CALC_run_quiet [of st "butlast ts" what] assms(1) len bne hd_eq
    by (simp split: option.split)
  have r: "FPS_CALC what (last ts) \<lparr>count = 99, last_t = Some ?l0\<rparr> =
     ([Cout [Str ''Average framerate('', Str what, Str ''): '',
             Dbl (100 / (last ts - ?l0)), Str '' Hz'', Endl]],
      \<lparr>count = 0, last_t = Some (last ts)\<rparr>)"
    by (subst FPS_CALC_report) simp_all
  have "FPS_CALC_run what (butlast ts @ [last ts]) st =
      ([Cout [Str ''Average framerate('', Str what, Str ''): '',
              Dbl (100 / (last ts - ?l0)), Str '' Hz'', Endl]],
       \<lparr>count = 0, last_t = Some (last ts)\<rparr>)"
    by (simp only: FPS_CALC_run_append q) (simp add: r)
  then show ?thesis using split by simp
qed

subsection \<open>The callbacks as events\<close>

lemma cloud_cb_eq:
  "cloud_cb lib f t s =
     (fst (FPS_CALC ''computation'' t (fps_computation s)),
      s\<lparr>fps_computation := snd (FPS_CALC ''computation'' t (fps_computation s)),
        mesh := (if new_cloud s then mesh s else Some (mesh_of lib f)),
        vertices := (if new_cloud s then vertices s else Some []),
        cloud := Some f,
        new_cloud := True\<rparr>)"
  by (simp add: cloud_cb_def mesh_of_def Let_def split: prod.split)

lemma viz_cb_idle: "\<not> new_cloud s \<Longrightarrow> viz_cb t s = Inr ([Sleep_ms 1], None, s)"
  by (simp add: viz_cb_def)

lemma viz_cb_render:
  "new_cloud s \<Longrightarrow> mesh s = Some m \<Longrightarrow>
   viz_cb t s =
     Inr (fst (FPS_CALC ''visualization'' t (fps_visualization s)),
          cloud s,
          s\<lparr>cloud := None,
            fps_visualization := snd (FPS_CALC ''visualization'' t (fps_visualization s)),
            viewer := (viewer s)(''surface'' \<mapsto>
               \<lparr>polygon_mesh = m, rendering = REPRESENTATION_WIREFRAME\<rparr>),
            new_cloud := False\<rparr>)"
  by (simp add: viz_cb_def Let_def removeShape_def addPolygonMesh_def
      setShapeRenderingProperties_def split: prod.split)

lemma pair_inv_new: "pair_inv (OpenNIFastMesh_new dev)"
  by (simp add: pair_inv_def OpenNIFastMesh_new_def)

lemma pair_inv_cloud_cb: "pair_inv s \<Longrightarrow> pair_inv (snd (cloud_cb lib f t s))"
  by (simp add: pair_inv_def cloud_cb_eq)

lemma pair_inv_viz_cb: "viz_cb t s = Inr (out, tc, s') \<Longrightarrow> pair_inv s'"
  by (auto simp: pair_inv_def viz_cb_def Let_def split: if_splits prod.splits option.splits)

lemma viz_cb_total: "pair_inv s \<Longrightarrow> \<exists>r. viz_cb t s = Inr r"
  by (cases "new_cloud s") (auto simp: pair_inv_def viz_cb_idle viz_cb_render)

lemma pair_inv_handle: "pair_inv s \<Longrightarrow> \<exists>s'. handle lib e s = Inr s' \<and> pair_inv s'"
proof (cases e)
  case (Capture f t)
  assume "pair_inv s"
  then show ?thesis using Capture by (simp add: pair_inv_cloud_cb)
next
  case (Render t)
  assume "pair_inv s"
  then obtain out tc s' where r: "viz_cb t s = Inr (out, tc, s')"
    using viz_cb_total [of s t] by (metis prod_cases3)
  then show ?thesis using Render pair_inv_viz_cb [OF r] by simp
qed

lemma pair_inv_handle_all:
  "pair_inv s \<Longrightarrow> \<exists>s'. handle_all lib es s = Inr s' \<and> pair_inv s'"
proof (induction es arbitrary: s)
  case Nil
  then show ?case by simp
next
  case (Cons e es)
  from pair_inv_handle [OF Cons.prems, of lib e]
  obtain s1 where s1: "handle lib e s = Inr s1" "pair_inv s1" by blast
  from Cons.IH [OF s1(2)] show ?case using s1(1) by simp
qed

lemma reachable_pair_inv:
  "handle_all lib es (OpenNIFastMesh_new dev) = Inr s \<Longrightarrow> pair_inv s"
  using pair_inv_handle_all [OF pair_inv_new, of lib es dev] by auto

text \<open>
  Captures that arrive while a pair is pending change the stored frame and the counter of
  their own expansion of \<open>FPS_CALC\<close>, and nothing else.
\<close>

lemma captures_pending:
  "new_cloud s \<Longrightarrow>
   \<exists>fps. handle_all lib (map (\<lambda>(g, u). Capture g u) fs) s =
           Inr (s\<lparr>cloud := (if fs = [] then cloud s else Some (fst (last fs))),
                  fps_computation := fps\<rparr>)"
proof (induction fs arbitrary: s)
  case Nil
  have "s = s\<lparr>cloud := cloud s, fps_computation := fps_computation s\<rparr>" by simp
  then show ?case by (metis (full_types) handle_all.simps(1) list.simps(8))
next
  case (Cons p fs)
  obtain g u where p: "p = (g, u)" by (cases p)
  let ?s1 = "s\<lparr>cloud := Some g,
      fps_computation := snd (FPS_CALC ''computation'' u (fps_computation s))\<rparr>"
  have s1: "snd (cloud_cb lib g u s) = ?s1"
    using Cons.prems by (simp add: cloud_cb_eq)
  have n1: "new_cloud ?s1" using Cons.prems by simp
  from Cons.IH [OF n1] obtain fps where
    "handle_all lib (map (\<lambda>(g, u). Capture g u) fs) ?s1 =
       Inr (?s1\<lparr>cloud := (if fs = [] then cloud ?s1 else Some (fst (last fs))),
                 fps_computation := fps\<rparr>)"
    by blast
  then have "handle_all lib (map (\<lambda>(g, u). Capture g u) (p # fs)) s =
       Inr (s\<lparr>cloud := (if p # fs = [] then cloud s else Some (fst (last (p # fs)))),
              fps_computation := fps\<rparr>)"
    using p s1 by simp
  then show ?case by blast
qed

subsection \<open>The callbacks as interleaved statements\<close>

lemma handoff_inv_new: "handoff_inv (threads_new dev)"
  by (simp add: handoff_inv_def viz_cb_locked_def threads_new_def OpenNIFastMesh_new_def
      OpenNIFastMesh.extend_def threads.fields_def)

lemma handoff_inv_cloud_cb_step:
  assumes "handoff_inv c"
  shows "case cloud_cb_step lib f t c of
           Next c' \<Rightarrow> handoff_inv c' | Blocked \<Rightarrow> True | Crashed err \<Rightarrow> False"
proof (cases "cloud_cb_at c")
  case C_lock
  then show ?thesis using assms
    by (simp add: cloud_cb_step_def handoff_inv_def viz_cb_locked_def split: option.splits; blast)
next
  case C_fps
  then show ?thesis using assms
    by (simp add: cloud_cb_step_def handoff_inv_def viz_cb_locked_def split: prod.splits; blast)
next
  case C_test
  then show ?thesis using assms
    by (simp add: cloud_cb_step_def handoff_inv_def viz_cb_locked_def; blast)
next
  case C_reset_mesh
  then show ?thesis using assms
    by (simp add: cloud_cb_step_def handoff_inv_def viz_cb_locked_def; blast)
next
  case C_reset_vertices
  then show ?thesis using assms
    by (simp add: cloud_cb_step_def handoff_inv_def viz_cb_locked_def; blast)
next
  case C_reconstruct
  then show ?thesis using assms
    by (simp add: cloud_cb_step_def handoff_inv_def viz_cb_locked_def split: option.splits; blast)
next
  case C_store
  then show ?thesis using assms
    by (simp add: cloud_cb_step_def handoff_inv_def viz_cb_locked_def; blast)
next
  case C_flag
  then show ?thesis using assms
    by (simp add: cloud_cb_step_def handoff_inv_def viz_cb_locked_def; blast)
next
  case C_unlock
  then show ?thesis using assms
    by (simp add: cloud_cb_step_def handoff_inv_def viz_cb_locked_def; blast)
qed

lemma handoff_inv_viz_cb_step:
  assumes "handoff_inv c"
  shows "case viz_cb_step t c of
           Next c' \<Rightarrow> handoff_inv c' | Blocked \<Rightarrow> True | Crashed err \<Rightarrow> False"
proof (cases "viz_cb_at c")
  case R_test
  then show ?thesis using assms
    by (simp add: viz_cb_step_def handoff_inv_def viz_cb_locked_def; blast)
next
  case R_sleep
  then show ?thesis using assms
    by (simp add: viz_cb_step_def handoff_inv_def viz_cb_locked_def; blast)
next
  case R_swap
  then show ?thesis using assms
    by (simp add: viz_cb_step_def handoff_inv_def viz_cb_locked_def; blast)
next
  case R_lock
  then show ?thesis using assms
    by (simp add: viz_cb_step_def handoff_inv_def viz_cb_locked_def split: option.splits; blast)
next
  case R_fps
  then show ?thesis using assms
    by (simp add: viz_cb_step_def handoff_inv_def viz_cb_locked_def split: prod.splits; blast)
next
  case R_remove
  then show ?thesis using assms
    by (simp add: viz_cb_step_def handoff_inv_def viz_cb_locked_def; blast)
next
  case R_add
  then show ?thesis using assms
    by (simp add: viz_cb_step_def handoff_inv_def viz_cb_locked_def split: option.splits; blast)
next
  case R_props
  then show ?thesis using assms
    by (simp add: viz_cb_step_def handoff_inv_def viz_cb_locked_def; blast)
next
  case R_clear
  then show ?thesis using assms
    by (simp add: viz_cb_step_def handoff_inv_def viz_cb_locked_def; blast)
next
  case R_unlock
  then show ?thesis using assms
    by (simp add: viz_cb_step_def handoff_inv_def viz_cb_locked_def; blast)
qed

lemma handoff_inv_steps:
  "handoff_inv c \<Longrightarrow> \<exists>c'. steps lib ks c = Inr c' \<and> handoff_inv c'"
proof (induction ks arbitrary: c)
  case Nil
  then show ?case by simp
next
  case (Cons k ks)
  have st: "case step lib k c of
           Next c' \<Rightarrow> handoff_inv c' | Blocked \<Rightarrow> True | Crashed err \<Rightarrow> False"
    using handoff_inv_cloud_cb_step [OF Cons.prems] handoff_inv_viz_cb_step [OF Cons.prems]
    by (cases k) simp_all
  show ?case
  proof (cases "step lib k c")
    case (Next c1)
    then have "handoff_inv c1" using st by simp
    from Cons.IH [OF this] show ?thesis using Next by simp
  next
    case Blocked
    from Cons.IH [OF Cons.prems] show ?thesis using Blocked by simp
  next
    case (Crashed err)
    then show ?thesis using st by simp
  qed
qed

lemma reachable_handoff_inv:
  "steps lib ks (threads_new dev) = Inr c \<Longrightarrow> handoff_inv c"
  using handoff_inv_steps [OF handoff_inv_new, of lib ks dev] by auto

lemma replicate_9: "replicate 9 x = [x, x, x, x, x, x, x, x, x]"
  by (simp add: eval_nat_numeral)

lemma replicate_6: "replicate 6 x = [x, x, x, x, x, x]"
  by (simp add: eval_nat_numeral)

lemma replicate_4: "replicate 4 x = [x, x, x, x]"
  by (simp add: eval_nat_numeral)

text \<open>
  The two levels agree: the statements of one call, run with no statement of the other
  thread in between, do what the event does. \<open>cloud_cb\<close> has nine statements when it
  recomputes the mesh and six when it does not; \<open>viz_cb\<close> has nine when it renders and
  two when it sleeps.
\<close>

lemma cloud_cb_steps:
  assumes "cloud_cb_at c = C_lock" and "mtx c = None" and "cloud_arg c = None"
  shows "steps lib (replicate (if new_cloud c then 6 else 9) (Capture_tick f t)) c =
           Inr ((snd (cloud_cb lib f t c))\<lparr>console := console c @ fst (cloud_cb lib f t c)\<rparr>)"
  using assms
  by (cases "new_cloud c")
     (simp_all add: replicate_9 replicate_6 cloud_cb_step_def cloud_cb_def Let_def
        split: prod.split)

lemma viz_cb_steps:
  assumes "viz_cb_at c = R_test" and "mtx c = None" and "temp_cloud c = None"
  shows "steps lib (replicate (if new_cloud c then 9 else 2) (Render_tick t)) c =
           map_sum id (\<lambda>(out, tc, s'). s'\<lparr>console := console c @ out\<rparr>) (viz_cb t c)"
proof (cases "new_cloud c")
  case False
  then show ?thesis using assms
    by (simp add: eval_nat_numeral viz_cb_step_def viz_cb_def)
next
  case True
  then show ?thesis using assms
    by (cases "mesh c")
       (simp_all add: replicate_9 viz_cb_step_def viz_cb_def Let_def split: prod.split)
qed

lemmas run_simps =
  cloud_cb_step_def viz_cb_step_def threads_new_def OpenNIFastMesh_new_def
  OpenNIFastMesh.extend_def threads.fields_def FPS_CALC_def fps_static_init_def
  example_pcl_def ofm_def mesh_of_def Let_def replicate_9 replicate_6 replicate_4

subsection \<open>The claims\<close>

text \<open>
  C6. A call of the render handler while the flag is down returns with the state as it
  was: nothing of the display, of the frame, of the mesh, of the flag or of the counters
  changes, and all it does is sleep for one millisecond.
\<close>

theorem viz_cb_no_pending:
  "\<not> new_cloud s \<Longrightarrow> viz_cb t s = Inr ([Sleep_ms 1], None, s)"
  by (simp add: viz_cb_def)

theorem viz_cb_no_pending_witness:
  "\<not> new_cloud (OpenNIFastMesh_new '''' :: (nat, nat list) OpenNIFastMesh) \<and>
   viz_cb 0 (OpenNIFastMesh_new '''' :: (nat, nat list) OpenNIFastMesh) =
     Inr ([Sleep_ms 1], None, OpenNIFastMesh_new '''')"
proof -
  have h: "\<not> new_cloud (OpenNIFastMesh_new '''' :: (nat, nat list) OpenNIFastMesh)"
    by (simp add: OpenNIFastMesh_new_def)
  show ?thesis using h viz_cb_no_pending [OF h, of 0] by simp
qed


text \<open>
  C2. On every capture event the capture handler, holding the shared lock, recomputes the
  mesh from the delivered frame with the fixed configuration (maximum edge length 1.5,
  triangle pixel size 1, adaptive-cut triangulation) if and only if no frame is pending,
  stores the delivered frame as the current frame whether or not it recomputed, and sets
  the flag. The first three conjuncts are the event; the last says that in every run of
  the interleaved statements the capture thread owns the mutex wherever it is past the
  first statement of \<open>cloud_cb\<close>.
\<close>

theorem cloud_cb_contract:
  "mesh (snd (cloud_cb lib f t s)) =
     (if new_cloud s then mesh s
      else Some (reconstruct lib
             \<lparr>max_edge_length = 3 / 2, triangle_pixel_size = 1,
              triangulation_type = TRIANGLE_ADAPTIVE_CUT, input = Some f\<rparr>
             (PolygonMesh lib))) \<and>
   cloud (snd (cloud_cb lib f t s)) = Some f \<and>
   new_cloud (snd (cloud_cb lib f t s)) \<and>
   (steps lib ks (threads_new dev) = Inr c \<and> cloud_cb_at c \<noteq> C_lock
      \<longrightarrow> mtx c = Some Capture_thread)"
proof -
  have "mtx c = Some Capture_thread"
    if "steps lib ks (threads_new dev) = Inr c" and "cloud_cb_at c \<noteq> C_lock"
    using reachable_handoff_inv [OF that(1)] that(2) by (simp add: handoff_inv_def)
  then show ?thesis
    by (simp add: cloud_cb_eq mesh_of_def ofm_def)
qed

theorem cloud_cb_contract_witness:
  "steps example_pcl (replicate 4 (Capture_tick 7 0)) (threads_new '''') =
     Inr (projr (steps example_pcl (replicate 4 (Capture_tick 7 0)) (threads_new ''''))) \<and>
   cloud_cb_at (projr (steps example_pcl (replicate 4 (Capture_tick 7 0)) (threads_new '''')))
     \<noteq> C_lock \<and>
   mtx (projr (steps example_pcl (replicate 4 (Capture_tick 7 0)) (threads_new '''')))
     = Some Capture_thread \<and>
   mesh (snd (cloud_cb example_pcl 7 0 (OpenNIFastMesh_new ''''))) = Some [7]"
proof -
  let ?r = "steps example_pcl (replicate 4 (Capture_tick 7 0)) (threads_new '''')"
  have e: "?r = Inr (projr ?r)" by (simp add: run_simps)
  have p: "cloud_cb_at (projr ?r) \<noteq> C_lock" by (simp add: run_simps)
  have n: "\<not> new_cloud (OpenNIFastMesh_new '''' :: (nat, nat list) OpenNIFastMesh)"
    by (simp add: OpenNIFastMesh_new_def)
  from cloud_cb_contract [of example_pcl 7 0 "OpenNIFastMesh_new ''''"
      "replicate 4 (Capture_tick 7 0)" "''''" "projr ?r"] e p n
  show ?thesis by (simp add: example_pcl_def)
qed

text \<open>
  C4. In every state that capture and render events reach from the constructor, a raised
  flag comes with a frame and a mesh; and in every run of the interleaved statements,
  whenever the render handler is about to test the flag and the flag is up, the slot holds
  a frame and a mesh. No run of either kind dereferences an empty mesh pointer.
\<close>

theorem flag_implies_pair:
  "(handle_all lib es (OpenNIFastMesh_new dev) = Inr s \<and> new_cloud s
      \<longrightarrow> cloud s \<noteq> None \<and> mesh s \<noteq> None) \<and>
   (steps lib ks (threads_new dev) = Inr c \<and> viz_cb_at c = R_test \<and> new_cloud c
      \<longrightarrow> cloud c \<noteq> None \<and> mesh c \<noteq> None) \<and>
   (\<exists>s'. handle_all lib es (OpenNIFastMesh_new dev) = Inr s') \<and>
   (\<exists>c'. steps lib ks (threads_new dev) = Inr c')"
proof -
  have a: "cloud s \<noteq> None \<and> mesh s \<noteq> None"
    if "handle_all lib es (OpenNIFastMesh_new dev) = Inr s" and "new_cloud s"
    using reachable_pair_inv [OF that(1)] that(2) by (simp add: pair_inv_def)
  have b: "cloud c \<noteq> None \<and> mesh c \<noteq> None"
    if "steps lib ks (threads_new dev) = Inr c" and "viz_cb_at c = R_test" and "new_cloud c"
    using reachable_handoff_inv [OF that(1)] that(2,3) by (simp add: handoff_inv_def)
  have c: "\<exists>s'. handle_all lib es (OpenNIFastMesh_new dev) = Inr s'"
    using pair_inv_handle_all [OF pair_inv_new, of lib es dev] by blast
  have d: "\<exists>c'. steps lib ks (threads_new dev) = Inr c'"
    using handoff_inv_steps [OF handoff_inv_new, of lib ks dev] by blast
  from a b c d show ?thesis by blast
qed

theorem flag_implies_pair_witness:
  "handle_all example_pcl [Capture 7 0] (OpenNIFastMesh_new '''') =
     Inr (snd (cloud_cb example_pcl 7 0 (OpenNIFastMesh_new ''''))) \<and>
   new_cloud (snd (cloud_cb example_pcl 7 0 (OpenNIFastMesh_new ''''))) \<and>
   cloud (snd (cloud_cb example_pcl 7 0 (OpenNIFastMesh_new ''''))) \<noteq> None \<and>
   mesh (snd (cloud_cb example_pcl 7 0 (OpenNIFastMesh_new ''''))) \<noteq> None \<and>
   steps example_pcl (replicate 9 (Capture_tick 7 0)) (threads_new '''') =
     Inr (projr (steps example_pcl (replicate 9 (Capture_tick 7 0)) (threads_new ''''))) \<and>
   viz_cb_at (projr (steps example_pcl (replicate 9 (Capture_tick 7 0)) (threads_new '''')))
     = R_test \<and>
   new_cloud (projr (steps example_pcl (replicate 9 (Capture_tick 7 0)) (threads_new ''''))) \<and>
   cloud (projr (steps example_pcl (replicate 9 (Capture_tick 7 0)) (threads_new '''')))
     \<noteq> None \<and>
   mesh (projr (steps example_pcl (replicate 9 (Capture_tick 7 0)) (threads_new '''')))
     \<noteq> None"
proof -
  let ?s = "snd (cloud_cb example_pcl 7 0 (OpenNIFastMesh_new ''''))"
  let ?r = "steps example_pcl (replicate 9 (Capture_tick 7 0)) (threads_new '''')"
  have h1: "handle_all example_pcl [Capture 7 0] (OpenNIFastMesh_new '''') = Inr ?s"
    by simp
  have h2: "new_cloud ?s" by (simp add: cloud_cb_eq)
  have h3: "?r = Inr (projr ?r)" by (simp add: run_simps)
  have h4: "viz_cb_at (projr ?r) = R_test" by (simp add: run_simps)
  have h5: "new_cloud (projr ?r)" by (simp add: run_simps)
  from flag_implies_pair [of example_pcl "[Capture 7 0]" "''''" ?s
      "replicate 9 (Capture_tick 7 0)" "projr ?r"] h1 h2 h3 h4 h5
  show ?thesis by blast
qed


text \<open>
  C1, as the claim states it, fails: after the captures of frames 1, 2 and 3 the render
  shows the mesh of frame 1, which is not the mesh of frame 3.
\<close>

theorem latest_wins_counterexample:
  "map_sum id displayed
     (handle_all example_pcl [Capture 1 0, Capture 2 1, Capture 3 2, Render 3]
        (OpenNIFastMesh_new '''')) =
     Inr (Some \<lparr>polygon_mesh = mesh_of example_pcl 1, rendering = REPRESENTATION_WIREFRAME\<rparr>) \<and>
   map_sum id displayed
     (handle_all example_pcl [Capture 1 0, Capture 2 1, Capture 3 2, Render 3]
        (OpenNIFastMesh_new '''')) \<noteq>
     Inr (Some \<lparr>polygon_mesh = mesh_of example_pcl 3, rendering = REPRESENTATION_WIREFRAME\<rparr>)"
  by (simp add: cloud_cb_eq viz_cb_def displayed_def OpenNIFastMesh_new_def FPS_CALC_def
      fps_static_init_def example_pcl_def ofm_def mesh_of_def Let_def removeShape_def
      addPolygonMesh_def setShapeRenderingProperties_def)

text \<open>
  C1, amended. For every sequence of capture events C1..Cn (n at least 1) delivered while
  nothing is pending at its start and before any render event, the slot then holds the
  mesh of the first frame C1 together with the last frame Cn; the render that follows
  takes that frame and displays the mesh derived from C1, and a further render call only
  sleeps. The mesh is first-wins, the stored frame latest-wins.
\<close>

theorem first_capture_wins:
  assumes "\<not> new_cloud s"
  shows "\<exists>s1 out s2.
           handle_all lib (map (\<lambda>(g, u). Capture g u) ((f, t) # rest)) s = Inr s1 \<and>
           mesh s1 = Some (mesh_of lib f) \<and>
           cloud s1 = Some (fst (last ((f, t) # rest))) \<and>
           viz_cb tr s1 = Inr (out, cloud s1, s2) \<and>
           displayed s2 =
             Some \<lparr>polygon_mesh = mesh_of lib f, rendering = REPRESENTATION_WIREFRAME\<rparr> \<and>
           viz_cb tr' s2 = Inr ([Sleep_ms 1], None, s2)"
proof -
  let ?s0 = "snd (cloud_cb lib f t s)"
  have n0: "new_cloud ?s0" and m0: "mesh ?s0 = Some (mesh_of lib f)"
    and c0: "cloud ?s0 = Some f"
    using assms by (simp_all add: cloud_cb_eq)
  from captures_pending [OF n0, of lib rest] obtain fps where
    s1: "handle_all lib (map (\<lambda>(g, u). Capture g u) rest) ?s0 =
           Inr (?s0\<lparr>cloud := (if rest = [] then cloud ?s0 else Some (fst (last rest))),
                    fps_computation := fps\<rparr>)"
    by blast
  let ?s1 = "?s0\<lparr>cloud := (if rest = [] then cloud ?s0 else Some (fst (last rest))),
                  fps_computation := fps\<rparr>"
  have run: "handle_all lib (map (\<lambda>(g, u). Capture g u) ((f, t) # rest)) s = Inr ?s1"
    using s1 by simp
  have n1: "new_cloud ?s1" using n0 by simp
  have m1: "mesh ?s1 = Some (mesh_of lib f)" using m0 by simp
  have c1: "cloud ?s1 = Some (fst (last ((f, t) # rest)))" using c0 by simp
  note r = viz_cb_render [OF n1 m1, of tr]
  let ?s2 = "?s1\<lparr>cloud := None,
            fps_visualization := snd (FPS_CALC ''visualization'' tr (fps_visualization ?s1)),
            viewer := (viewer ?s1)(''surface'' \<mapsto>
               \<lparr>polygon_mesh = mesh_of lib f, rendering = REPRESENTATION_WIREFRAME\<rparr>),
            new_cloud := False\<rparr>"
  have d: "displayed ?s2 =
      Some \<lparr>polygon_mesh = mesh_of lib f, rendering = REPRESENTATION_WIREFRAME\<rparr>"
    by (simp add: displayed_def)
  have i: "viz_cb tr' ?s2 = Inr ([Sleep_ms 1], None, ?s2)"
    by (rule viz_cb_idle) simp
  show ?thesis using run m1 c1 r d i by blast
qed

theorem first_capture_wins_witness:
  "\<not> new_cloud (OpenNIFastMesh_new '''' :: (nat, nat list) OpenNIFastMesh) \<and>
   (\<exists>s1 out s2.
      handle_all example_pcl [Capture 1 0, Capture 2 1, Capture 3 2] (OpenNIFastMesh_new '''')
        = Inr s1 \<and>
      mesh s1 = Some (mesh_of example_pcl 1) \<and>
      cloud s1 = Some 3 \<and>
      viz_cb 3 s1 = Inr (out, Some 3, s2) \<and>
      displayed s2 =
        Some \<lparr>polygon_mesh = mesh_of example_pcl 1, rendering = REPRESENTATION_WIREFRAME\<rparr> \<and>
      viz_cb 4 s2 = Inr ([Sleep_ms 1], None, s2))"
proof -
  have h: "\<not> new_cloud (OpenNIFastMesh_new '''' :: (nat, nat list) OpenNIFastMesh)"
    by (simp add: OpenNIFastMesh_new_def)
  from first_capture_wins [OF h, of example_pcl 1 0 "[(2, 1), (3, 2)]" 3 4] h
  show ?thesis by auto
qed







text \<open>
  C8. At one expansion of the macro, starting with the count at zero (at the first pass or
  right after a report), one hundred passes print exactly one report, at the hundredth
  pass; its rate is 100 divided by the time from the previous report, or from the first
  pass when there was none, to the hundredth pass; and the count is zero again. The two
  expansions are independent: a capture event leaves the statics of the render handler's
  expansion as they were and passes once through its own, and a render event leaves the
  statics of the capture handler's expansion as they were. The clock is assumed to have
  advanced over the hundred passes.
\<close>

theorem FPS_CALC_hundred:
  assumes "count st = 0" and "length ts = 100"
    and "(case last_t st of None \<Rightarrow> hd ts | Some l \<Rightarrow> l) < last ts"
  shows "FPS_CALC_run what ts st =
           ([Cout [Str ''Average framerate('', Str what, Str ''): '',
                   Dbl (100 / (last ts - (case last_t st of None \<Rightarrow> hd ts | Some l \<Rightarrow> l))),
                   Str '' Hz'', Endl]],
            \<lparr>count = 0, last_t = Some (last ts)\<rparr>) \<and>
         fst (FPS_CALC_run what (butlast ts) st) = [] \<and>
         fps_visualization (snd (cloud_cb lib f t s)) = fps_visualization s \<and>
         fps_computation (snd (cloud_cb lib f t s)) =
           snd (FPS_CALC ''computation'' t (fps_computation s)) \<and>
         (\<forall>out tc s'. viz_cb t s = Inr (out, tc, s')
            \<longrightarrow> fps_computation s' = fps_computation s)"
proof -
  have len: "length (butlast ts) = 99" using assms(2) by simp
  then have bne: "butlast ts \<noteq> []" by (metis length_0_conv zero_neq_numeral)
  have quiet: "fst (FPS_CALC_run what (butlast ts) st) = []"
    using FPS_CALC_run_quiet [of st "butlast ts" what] assms(1) len bne by simp
  have viz: "fps_computation s' = fps_computation s" if "viz_cb t s = Inr (out, tc, s')"
    for out tc s'
    using that
    by (auto simp: viz_cb_def Let_def split: if_splits prod.splits option.splits)
  show ?thesis
    using FPS_CALC_run_100 [OF assms(1,2)] quiet viz by (simp add: cloud_cb_eq)
qed

theorem FPS_CALC_hundred_witness:
  "count fps_static_init = 0 \<and>
   length (map real [1 ..< 101]) = 100 \<and>
   (case last_t fps_static_init of None \<Rightarrow> hd (map real [1 ..< 101]) | Some l \<Rightarrow> l)
     < last (map real [1 ..< 101]) \<and>
   FPS_CALC_run ''computation'' (map real [1 ..< 101]) fps_static_init =
     ([Cout [Str ''Average framerate('', Str ''computation'', Str ''): '',
             Dbl (100 / 99), Str '' Hz'', Endl]],
      \<lparr>count = 0, last_t = Some 100\<rparr>)"
proof -
  have hd1: "hd (map real [1 ..< 101]) = 1"
    by (simp add: upt_conv_Cons)
  have last1: "last (map real [1 ..< 101]) = 100"
    by (simp add: last_map)
  have h1: "count fps_static_init = 0" by (simp add: fps_static_init_def)
  have h2: "length (map real [1 ..< 101]) = 100" by simp
  have h3: "(case last_t fps_static_init of None \<Rightarrow> hd (map real [1 ..< 101]) | Some l \<Rightarrow> l)
     < last (map real [1 ..< 101])"
    using hd1 last1 by (simp add: fps_static_init_def)
  from FPS_CALC_hundred [OF h1 h2 h3, of "''computation''" example_pcl 1 0
      "OpenNIFastMesh_new ''''"]
  have "FPS_CALC_run ''computation'' (map real [1 ..< 101]) fps_static_init =
     ([Cout [Str ''Average framerate('', Str ''computation'', Str ''): '',
             Dbl (100 / (last (map real [1 ..< 101]) -
                (case last_t fps_static_init of
                   None \<Rightarrow> hd (map real [1 ..< 101]) | Some l \<Rightarrow> l))),
             Str '' Hz'', Endl]],
      \<lparr>count = 0, last_t = Some (last (map real [1 ..< 101]))\<rparr>)"
    by (rule conjunct1)
  with h1 h2 h3 hd1 last1 show ?thesis by (simp add: fps_static_init_def)
qed

text \<open>
  C9. The code does not keep to the claim. In the run below the capture handler has
  delivered frame 1, the render handler has tested the flag, and the capture handler,
  delivering frame 2, has taken the mutex and stored the frame. With the capture thread
  owning the mutex, the next statement of the render handler (the swap of line 111)
  empties the shared frame pointer.
\<close>

theorem viz_cb_swaps_without_mutex:
  "map_sum id mtx (steps example_pcl
      (replicate 9 (Capture_tick 1 0) @ [Render_tick 1] @ replicate 4 (Capture_tick 2 2))
      (threads_new '''')) = Inr (Some Capture_thread) \<and>
   map_sum id viz_cb_at (steps example_pcl
      (replicate 9 (Capture_tick 1 0) @ [Render_tick 1] @ replicate 4 (Capture_tick 2 2))
      (threads_new '''')) = Inr R_swap \<and>
   map_sum id cloud (steps example_pcl
      (replicate 9 (Capture_tick 1 0) @ [Render_tick 1] @ replicate 4 (Capture_tick 2 2))
      (threads_new '''')) = Inr (Some 2) \<and>
   map_sum id mtx (steps example_pcl
      (replicate 9 (Capture_tick 1 0) @ [Render_tick 1] @ replicate 4 (Capture_tick 2 2)
         @ [Render_tick 3])
      (threads_new '''')) = Inr (Some Capture_thread) \<and>
   map_sum id cloud (steps example_pcl
      (replicate 9 (Capture_tick 1 0) @ [Render_tick 1] @ replicate 4 (Capture_tick 2 2)
         @ [Render_tick 3])
      (threads_new '''')) = Inr None \<and>
   map_sum id temp_cloud (steps example_pcl
      (replicate 9 (Capture_tick 1 0) @ [Render_tick 1] @ replicate 4 (Capture_tick 2 2)
         @ [Render_tick 3])
      (threads_new '''')) = Inr (Some 2)"
  by (simp add: run_simps)



lemma replicate_7: "replicate 7 x = [x, x, x, x, x, x, x]"
  by (simp add: eval_nat_numeral)

lemma replicate_2: "replicate 2 x = [x, x]"
  by (simp add: eval_nat_numeral)





text \<open>
  C10. The code does not keep to the claim, by the defect of C9. In the run below the
  capture handler has delivered frame 1; the render handler tests the flag and swaps the
  frame out (lines 105 to 111), taking frame 1; a whole call of the capture handler with
  frame 2 runs before the render handler takes the mutex; the render handler then runs to
  its end (lines 114 to 127). The render has consumed the pending pair and displays the
  mesh of frame 1, the flag is down, and the shared frame pointer holds frame 2: it is not
  empty.
\<close>

theorem render_leaves_frame_in_slot:
  "map_sum id temp_cloud (steps example_pcl
      (replicate 9 (Capture_tick 1 0) @ replicate 2 (Render_tick 1))
      (threads_new '''')) = Inr (Some 1) \<and>
   map_sum id viz_cb_at (steps example_pcl
      (replicate 9 (Capture_tick 1 0) @ replicate 2 (Render_tick 1)
         @ replicate 6 (Capture_tick 2 2) @ replicate 7 (Render_tick 3))
      (threads_new '''')) = Inr R_test \<and>
   map_sum id displayed (steps example_pcl
      (replicate 9 (Capture_tick 1 0) @ replicate 2 (Render_tick 1)
         @ replicate 6 (Capture_tick 2 2) @ replicate 7 (Render_tick 3))
      (threads_new '''')) =
     Inr (Some \<lparr>polygon_mesh = mesh_of example_pcl 1, rendering = REPRESENTATION_WIREFRAME\<rparr>) \<and>
   map_sum id new_cloud (steps example_pcl
      (replicate 9 (Capture_tick 1 0) @ replicate 2 (Render_tick 1)
         @ replicate 6 (Capture_tick 2 2) @ replicate 7 (Render_tick 3))
      (threads_new '''')) = Inr False \<and>
   map_sum id mtx (steps example_pcl
      (replicate 9 (Capture_tick 1 0) @ replicate 2 (Render_tick 1)
         @ replicate 6 (Capture_tick 2 2) @ replicate 7 (Render_tick 3))
      (threads_new '''')) = Inr None \<and>
   map_sum id cloud (steps example_pcl
      (replicate 9 (Capture_tick 1 0) @ replicate 2 (Render_tick 1)
         @ replicate 6 (Capture_tick 2 2) @ replicate 7 (Render_tick 3))
      (threads_new '''')) = Inr (Some 2)"
  by (simp add: run_simps replicate_7 replicate_2 displayed_def removeShape_def
      addPolygonMesh_def setShapeRenderingProperties_def)


end
